theory Spec2Isabelle
  imports Complex_Main
begin

section \<open>Data model (types.ts)\<close>

text \<open>
  JavaScript numbers are modelled as \<^typ>\<open>real\<close>: the properties below are about the
  comparisons and branches of the tick, and every concrete input used further down is chosen
  so that no comparison is close to a tie.
\<close>

datatype SurfaceType = ICE | NORMAL | ROUGH

datatype ForceMode = Continuous | Impulse | Timed | Distance

datatype Status = Static | Moving | Finished

text \<open>
  \<open>SimulationState.id\<close> is the field \<open>id_state\<close> below (\<open>id\<close> is the identity
  function of HOL).

  \<open>SurfaceConfig\<close>. The fields \<open>color\<close> and \<open>description\<close> are presentation strings that
  no function below reads; the record keeps the four fields the engine uses.
\<close>

record SurfaceConfig =
  type :: SurfaceType
  staticFrictionCoeff :: real
  kineticFrictionCoeff :: real
  frictionRange :: "real \<times> real"

record SimulationState =
  id_state :: SurfaceType
  position :: real
  velocity :: real
  acceleration :: real
  timeElapsed :: real
  isFinished :: bool
  status :: Status
  frictionForce :: real
  currentAppliedForce :: real

record SimulationParams =
  mass :: real
  distance :: real
  appliedForce :: real
  forceMode :: ForceMode
  forceDuration :: real
  forceDistanceLimit :: real

section \<open>Constants (constants.ts, App.tsx)\<close>

definition GRAVITY :: real where
  "GRAVITY = 981 / 100"

definition IMPULSE_DURATION :: real where
  "IMPULSE_DURATION = 1 / 2"

text \<open>
  constants.ts declares \<open>SURFACES\<close> and \<open>INITIAL_PARAMS\<close> twice; the second declaration
  differs in the static coefficient of Ice (0.2) and in the mass (10). The first one is
  taken here, also for the concrete runs. The general theorems are stated for every registry
  and every parameter record.
\<close>

definition SURFACES :: "SurfaceConfig list" where
  "SURFACES =
    [\<lparr>type = ICE, staticFrictionCoeff = 15 / 100, kineticFrictionCoeff = 1 / 10,
      frictionRange = (1 / 10, 3 / 10)\<rparr>,
     \<lparr>type = NORMAL, staticFrictionCoeff = 4 / 10, kineticFrictionCoeff = 3 / 10,
      frictionRange = (3 / 10, 6 / 10)\<rparr>,
     \<lparr>type = ROUGH, staticFrictionCoeff = 7 / 10, kineticFrictionCoeff = 6 / 10,
      frictionRange = (6 / 10, 1)\<rparr>]"

section \<open>The tick of one body (App.tsx, the callback of \<open>prevStates.map\<close> in \<open>loop\<close>)\<close>

text \<open>The \<open>switch\<close> on \<open>params.forceMode\<close>.\<close>

definition isForceActive :: "SimulationParams \<Rightarrow> SimulationState \<Rightarrow> bool" where
  "isForceActive params state =
    (case forceMode params of
       Continuous \<Rightarrow> True
     | Impulse \<Rightarrow> timeElapsed state < IMPULSE_DURATION
     | Timed \<Rightarrow> timeElapsed state < forceDuration params
     | Distance \<Rightarrow> position state < forceDistanceLimit params)"

definition pushForce :: "SimulationParams \<Rightarrow> SimulationState \<Rightarrow> real" where
  "pushForce params state = (if isForceActive params state then appliedForce params else 0)"

definition normalForce :: "SimulationParams \<Rightarrow> real" where
  "normalForce params = mass params * GRAVITY"

definition maxStaticFriction :: "SimulationParams \<Rightarrow> SurfaceConfig \<Rightarrow> real" where
  "maxStaticFriction params surface = staticFrictionCoeff surface * normalForce params"

definition kineticFriction :: "SimulationParams \<Rightarrow> SurfaceConfig \<Rightarrow> real" where
  "kineticFriction params surface = kineticFrictionCoeff surface * normalForce params"

text \<open>
  The body of the callback once the surface has been found: the three branches on
  \<open>state.status\<close> and the object literal that is returned.
\<close>

definition tickBody ::
  "SimulationParams \<Rightarrow> real \<Rightarrow> SurfaceConfig \<Rightarrow> SimulationState \<Rightarrow> SimulationState" where
  "tickBody params simStep surface state =
    (let push = pushForce params state;
         kf = kineticFriction params surface
     in case status state of
          Static \<Rightarrow>
            if push > maxStaticFriction params surface
            then state\<lparr>status := Moving, acceleration := 0, isFinished := False,
                       frictionForce := kf, currentAppliedForce := push\<rparr>
            else state\<lparr>status := Static, acceleration := 0, isFinished := False,
                       frictionForce := (if push = 0 then 0 else push),
                       currentAppliedForce := push\<rparr>
        | Moving \<Rightarrow>
            let netForce = push - kf;
                acc0 = netForce / mass params;
                vel0 = velocity state + acc0 * simStep;
                stopped = (vel0 \<le> 0 \<and> push \<le> kf);
                newVel = (if stopped then 0 else vel0);
                newAcc = (if stopped then 0 else acc0);
                pos0 = position state + newVel * simStep;
                newTime = timeElapsed state + simStep;
                arrived = (pos0 \<ge> distance params);
                newPos = (if arrived then distance params else pos0);
                newStatus = (if arrived \<or> stopped then Finished else Moving)
            in state\<lparr>status := newStatus, acceleration := newAcc, velocity := newVel,
                      position := newPos, timeElapsed := newTime,
                      isFinished := (newStatus = Finished),
                      frictionForce := kf, currentAppliedForce := push\<rparr>
        | Finished \<Rightarrow>
            state\<lparr>status := Finished, acceleration := 0, isFinished := True,
                  frictionForce := 0, currentAppliedForce := push\<rparr>)"

text \<open>
  The whole callback: a state whose \<open>isFinished\<close> flag is set is returned as it is;
  otherwise the surface is looked up by \<open>surfaceConfigs.find\<close>. \<open>None\<close> is the
  TypeError raised when \<open>find\<close> returns \<open>undefined\<close> and a field of it is read.
\<close>

definition advance ::
  "SurfaceConfig list \<Rightarrow> SimulationParams \<Rightarrow> real \<Rightarrow> SimulationState
     \<Rightarrow> SimulationState option" where
  "advance surfaceConfigs params simStep state =
    (if isFinished state then Some state
     else case find (\<lambda>s. type s = id_state state) surfaceConfigs of
            None \<Rightarrow> None
          | Some surface \<Rightarrow> Some (tickBody params simStep surface state))"

text \<open>
  A sequence of ticks of one body, each with its own step: the repeated invocation of the
  callback on the state that the previous invocation returned.
\<close>

fun ticks ::
  "SurfaceConfig list \<Rightarrow> SimulationParams \<Rightarrow> real list \<Rightarrow> SimulationState
     \<Rightarrow> SimulationState option" where
  "ticks surfaceConfigs params [] state = Some state"
| "ticks surfaceConfigs params (simStep # rest) state =
     (case advance surfaceConfigs params simStep state of
        None \<Rightarrow> None
      | Some state' \<Rightarrow> ticks surfaceConfigs params rest state')"

section \<open>The component state and its operations (App.tsx)\<close>

definition SPEED_MULTIPLIER :: real where
  "SPEED_MULTIPLIER = 5"

text \<open>
  A \<open>loop\<close> callback is created by one render of \<open>App\<close> and reads the constants of
  that render: \<open>params\<close>, \<open>surfaceConfigs\<close> and \<open>isRunning\<close> (\<open>useState\<close> values are
  \<open>const\<close>; \<open>setIsRunning\<close> changes what later renders see, not a callback that already
  exists). \<open>requestAnimationFrame(loop)\<close> inside \<open>loop\<close> schedules the same callback again,
  so a running loop keeps the constants of the render in which \<open>startLoop\<close> was called.
\<close>

record LoopClosure =
  params_c :: SimulationParams
  surfaceConfigs_c :: "SurfaceConfig list"
  isRunning_c :: bool

text \<open>
  The React state of \<open>App\<close> that the operations read and write, with \<open>lastTimeRef\<close> and
  the callback that is scheduled for the next animation frame (\<open>animationRef\<close>; \<open>None\<close>
  when no frame is requested). The component's \<open>isFinished\<close> is the field
  \<open>isFinished_app\<close> (the name \<open>isFinished\<close> is the field of \<open>SimulationState\<close>).
\<close>

record App =
  params :: SimulationParams
  surfaceConfigs :: "SurfaceConfig list"
  states :: "SimulationState list"
  isRunning :: bool
  isFinished_app :: bool
  lastTime :: real
  scheduled :: "LoopClosure option"

text \<open>The \<open>loop\<close> callback of the current render.\<close>

definition currentLoop :: "App \<Rightarrow> LoopClosure" where
  "currentLoop app =
    \<lparr>params_c = params app, surfaceConfigs_c = surfaceConfigs app,
     isRunning_c = isRunning app\<rparr>"

text \<open>The object literal that \<open>resetSimulation\<close> builds for one surface.\<close>

definition initialState :: "SimulationParams \<Rightarrow> SurfaceConfig \<Rightarrow> SimulationState" where
  "initialState currentParams s =
    \<lparr>id_state = type s, position = 0, velocity = 0, acceleration = 0, timeElapsed = 0,
     isFinished = False, status = Static, frictionForce = 0,
     currentAppliedForce = appliedForce currentParams\<rparr>"

text \<open>\<open>resetSimulation\<close>; \<open>cancelAnimationFrame\<close> removes the scheduled callback.\<close>

definition resetSimulation :: "SimulationParams \<Rightarrow> App \<Rightarrow> App" where
  "resetSimulation currentParams app =
    app\<lparr>states := map (initialState currentParams) (surfaceConfigs app),
        isRunning := False, isFinished_app := False, scheduled := None\<rparr>"

text \<open>
  \<open>startLoop\<close>; \<open>now\<close> is the value of \<open>performance.now()\<close>. The callback handed to
  \<open>requestAnimationFrame\<close> is the \<open>loop\<close> of the render in which \<open>startLoop\<close> runs, so
  it holds the value that \<open>isRunning\<close> has before \<open>setIsRunning(true)\<close> takes effect.
\<close>

definition startLoop :: "real \<Rightarrow> App \<Rightarrow> App" where
  "startLoop now app =
    app\<lparr>isRunning := True, isFinished_app := False, lastTime := now,
        scheduled := Some (currentLoop app)\<rparr>"

text \<open>
  \<open>handleStart\<close>, the handler of the Start button, which is rendered only while
  \<open>isRunning\<close> is false.
\<close>

definition handleStart :: "real \<Rightarrow> App \<Rightarrow> App" where
  "handleStart now app =
    (if isFinished_app app then startLoop now (resetSimulation (params app) app)
     else startLoop now app)"

text \<open>
  \<open>Number.prototype.toFixed(2)\<close> followed by \<open>parseFloat\<close>, on reals: the multiple of
  \<open>1/100\<close> nearest to the argument, the larger one on a tie, computed on the absolute value
  when the argument is negative.
\<close>

definition toFixed2 :: "real \<Rightarrow> real" where
  "toFixed2 x =
    (if x < 0 then - (of_int \<lfloor>(- x) * 100 + 1 / 2\<rfloor> / 100)
     else of_int \<lfloor>x * 100 + 1 / 2\<rfloor> / 100)"

definition handleFrictionChange ::
  "SurfaceType \<Rightarrow> real \<Rightarrow> SurfaceConfig list \<Rightarrow> SurfaceConfig list" where
  "handleFrictionChange ty newKinetic prev =
    map (\<lambda>s. if type s = ty
              then s\<lparr>kineticFrictionCoeff := newKinetic,
                     staticFrictionCoeff := toFixed2 (newKinetic + 1 / 10)\<rparr>
              else s) prev"

text \<open>
  One call \<open>loop(time)\<close> of the callback \<open>c\<close>. \<open>None\<close> is the TypeError of a body whose
  surface is not found. The variable \<open>allFinished\<close> of the source is assigned and never
  read, so it has no part in the result. In the stop branch the frame request is cancelled;
  otherwise the same callback is scheduled again.
\<close>

definition loop :: "LoopClosure \<Rightarrow> real \<Rightarrow> App \<Rightarrow> App option" where
  "loop c time app =
    (let deltaTime = (time - lastTime app) / 1000;
         simStep = deltaTime * SPEED_MULTIPLIER
     in case those (map (advance (surfaceConfigs_c c) (params_c c) simStep) (states app)) of
          None \<Rightarrow> None
        | Some newStates \<Rightarrow>
            let currentlyMoving = list_ex (\<lambda>s. status s = Moving) newStates
            in if \<not> currentlyMoving \<and> isRunning_c c
               then Some (app\<lparr>states := newStates, lastTime := time,
                               isFinished_app := True, isRunning := False,
                               scheduled := None\<rparr>)
               else Some (app\<lparr>states := newStates, lastTime := time,
                               scheduled := Some c\<rparr>))"

text \<open>
  The browser delivering animation frames at the given times: each frame runs the scheduled
  callback, if there is one.
\<close>

definition frame :: "real \<Rightarrow> App \<Rightarrow> App option" where
  "frame time app = (case scheduled app of None \<Rightarrow> Some app | Some c \<Rightarrow> loop c time app)"

fun frames :: "real list \<Rightarrow> App \<Rightarrow> App option" where
  "frames [] app = Some app"
| "frames (time # rest) app =
     (case frame time app of None \<Rightarrow> None | Some app' \<Rightarrow> frames rest app')"

section \<open>Inputs used by the concrete checks\<close>

text \<open>
  \<open>INITIAL_PARAMS\<close> of constants.ts, and the parameter sets and states at which the
  theorems of the later sections are evaluated.
\<close>

definition INITIAL_PARAMS :: SimulationParams where
  "INITIAL_PARAMS =
    \<lparr>mass = 1, distance = 500, appliedForce = 150, forceMode = Continuous,
     forceDuration = 5, forceDistanceLimit = 100\<rparr>"

text \<open>The second entry of \<open>SURFACES\<close>.\<close>

definition floorSurface :: SurfaceConfig where
  "floorSurface =
    \<lparr>type = NORMAL, staticFrictionCoeff = 4 / 10, kineticFrictionCoeff = 3 / 10,
     frictionRange = (3 / 10, 6 / 10)\<rparr>"

text \<open>
  The component after mounting (\<open>resetSimulation\<close> from the effect) and a click on Start at
  time 0, and frames every 16 ms after it.
\<close>

definition mountedApp :: App where
  "mountedApp =
    resetSimulation INITIAL_PARAMS
      \<lparr>params = INITIAL_PARAMS, surfaceConfigs = SURFACES, states = [], isRunning = False,
       isFinished_app = False, lastTime = 0, scheduled = None\<rparr>"

definition startedApp :: App where
  "startedApp = handleStart 0 mountedApp"

definition frameTimes :: "nat \<Rightarrow> real list" where
  "frameTimes n = map (\<lambda>k. 16 * real k) [1..<Suc n]"

text \<open>
  A timed push of 2.6 s: on the Floor it is still active at the start of the tick on which
  the body arrives (elapsed time 2.56 s) and has expired at its end (2.64 s).
\<close>

definition expiringParams :: SimulationParams where
  "expiringParams = INITIAL_PARAMS\<lparr>forceMode := Timed, forceDuration := 26 / 10\<rparr>"

text \<open>The weak push in timed mode (duration 5 s).\<close>

definition weakTimedParams :: SimulationParams where
  "weakTimedParams = INITIAL_PARAMS\<lparr>appliedForce := 1, forceMode := Timed\<rparr>"

text \<open>A timed push of one second, and a body that coasts after the push has ended.\<close>

definition timedParams :: SimulationParams where
  "timedParams = INITIAL_PARAMS\<lparr>forceMode := Timed, forceDuration := 1\<rparr>"

definition coastingState :: SimulationState where
  "coastingState =
    \<lparr>id_state = NORMAL, position = 50, velocity = 1, acceleration = - (2943 / 1000),
     timeElapsed = 2, isFinished = False, status = Moving, frictionForce = 2943 / 1000,
     currentAppliedForce = 0\<rparr>"

section \<open>Facts about one tick\<close>

lemmas tick_defs =
  advance_def tickBody_def pushForce_def isForceActive_def kineticFriction_def
  maxStaticFriction_def normalForce_def GRAVITY_def IMPULSE_DURATION_def Let_def

lemmas input_defs =
  SURFACES_def INITIAL_PARAMS_def floorSurface_def weakTimedParams_def expiringParams_def
  timedParams_def coastingState_def initialState_def

lemma find_floorSurface: "find (\<lambda>c. type c = NORMAL) SURFACES = Some floorSurface"
  by (simp add: SURFACES_def floorSurface_def)

lemma advance_finished_noop: "isFinished s \<Longrightarrow> advance cfgs p dt s = Some s"
  by (simp add: advance_def)

lemma advance_cases:
  assumes "advance cfgs p dt s = Some s'"
  obtains (frozen) "isFinished s" and "s' = s"
  | (ticked) surface where "\<not> isFinished s"
      and "find (\<lambda>c. type c = id_state s) cfgs = Some surface"
      and "s' = tickBody p dt surface s"
  using assms by (auto simp: advance_def split: if_splits option.splits)

lemma moving_velocity_nonneg:
  fixes v push kf m dt :: real
  assumes "0 < m" and "0 \<le> dt" and "0 \<le> v"
    and "\<not> (v + (push - kf) / m * dt \<le> 0 \<and> push \<le> kf)"
  shows "0 \<le> v + (push - kf) / m * dt"
proof (cases "push \<le> kf")
  case True
  with assms(4) show ?thesis by simp
next
  case False
  then have "0 \<le> (push - kf) / m" using assms(1) by simp
  then have "0 \<le> (push - kf) / m * dt" using assms(2) by (rule mult_nonneg_nonneg)
  then show ?thesis using assms(3) by simp
qed

lemma tickBody_velocity_nonneg:
  assumes "0 < mass p" and "0 \<le> dt" and "0 \<le> velocity s"
  shows "0 \<le> velocity (tickBody p dt surface s)"
proof (cases "status s")
  case Static
  then show ?thesis using assms(3) by (simp add: tickBody_def Let_def)
next
  case Moving
  then show ?thesis
    using moving_velocity_nonneg [OF assms, of "pushForce p s" "kineticFriction p surface"]
    by (simp add: tickBody_def Let_def)
next
  case Finished
  then show ?thesis using assms(3) by (simp add: tickBody_def Let_def)
qed

lemma tickBody_isFinished:
  "isFinished (tickBody p dt surface s) = (status (tickBody p dt surface s) = Finished)"
  by (cases "status s") (simp_all add: tickBody_def Let_def)

lemma tickBody_moving_position:
  assumes "status s = Moving"
  shows "position (tickBody p dt surface s)
      = min (distance p) (position s + velocity (tickBody p dt surface s) * dt)"
  using assms by (simp add: tickBody_def Let_def min_def)

lemma tickBody_position:
  assumes "0 < mass p" and "0 \<le> dt" and "0 \<le> velocity s" and "position s \<le> distance p"
  shows "position s \<le> position (tickBody p dt surface s)
       \<and> position (tickBody p dt surface s) \<le> distance p"
proof (cases "status s")
  case Static
  then show ?thesis using assms(4) by (simp add: tickBody_def Let_def)
next
  case Moving
  have "0 \<le> velocity (tickBody p dt surface s)"
    by (rule tickBody_velocity_nonneg [OF assms(1-3)])
  then have "0 \<le> velocity (tickBody p dt surface s) * dt"
    using assms(2) by simp
  then show ?thesis
    using assms(4) tickBody_moving_position [OF Moving, of p dt surface]
    by (simp add: min_def)
next
  case Finished
  then show ?thesis using assms(4) by (simp add: tickBody_def Let_def)
qed

text \<open>
  What every state produced from a reset state satisfies, and one tick preserves: the
  velocity is not negative, the position is at most the target, and the flag
  \<open>isFinished\<close> agrees with the status.
\<close>

lemma advance_invariant:
  assumes "0 < mass p" and "0 \<le> dt" and "advance cfgs p dt s = Some s'"
    and "0 \<le> velocity s" and "position s \<le> distance p"
    and "isFinished s = (status s = Finished)"
  shows "0 \<le> velocity s' \<and> position s' \<le> distance p
       \<and> isFinished s' = (status s' = Finished) \<and> position s \<le> position s'"
  using assms(3)
proof (cases rule: advance_cases)
  case frozen
  then show ?thesis using assms by simp
next
  case (ticked surface)
  then show ?thesis
    using tickBody_velocity_nonneg [OF assms(1,2,4), of surface]
      tickBody_position [OF assms(1,2,4,5), of surface]
      tickBody_isFinished [of p dt surface s]
    by simp
qed

lemma ticks_invariant:
  assumes "0 < mass p" and "\<forall>dt\<in>set dts. 0 \<le> dt" and "ticks cfgs p dts s = Some s'"
    and "0 \<le> velocity s" and "position s \<le> distance p"
    and "isFinished s = (status s = Finished)"
  shows "0 \<le> velocity s' \<and> position s' \<le> distance p
       \<and> isFinished s' = (status s' = Finished) \<and> position s \<le> position s'"
  using assms(2-)
proof (induction dts arbitrary: s)
  case Nil
  then show ?case by simp
next
  case (Cons dt dts)
  from Cons.prems(2) obtain s1 where s1: "advance cfgs p dt s = Some s1"
    and rest: "ticks cfgs p dts s1 = Some s'"
    by (auto split: option.splits)
  have dt: "0 \<le> dt" and dts: "\<forall>d\<in>set dts. 0 \<le> d" using Cons.prems(1) by simp_all
  have i1: "0 \<le> velocity s1 \<and> position s1 \<le> distance p
       \<and> isFinished s1 = (status s1 = Finished) \<and> position s \<le> position s1"
    by (rule advance_invariant [OF assms(1) dt s1 Cons.prems(3,4,5)])
  have "0 \<le> velocity s' \<and> position s' \<le> distance p
       \<and> isFinished s' = (status s' = Finished) \<and> position s1 \<le> position s'"
    using Cons.IH [OF dts rest] i1 by blast
  then show ?case using i1 by simp
qed

lemma initialState_invariant:
  "0 \<le> velocity (initialState p c) \<and> position (initialState p c) = 0
   \<and> isFinished (initialState p c) = (status (initialState p c) = Finished)"
  by (simp add: initialState_def)

lemma advance_static_after:
  assumes "advance cfgs p dt s = Some s'" and "status s' = Static"
  shows "status s = Static \<and> timeElapsed s' = timeElapsed s \<and> position s' = position s"
  using assms(1)
proof (cases rule: advance_cases)
  case frozen
  then show ?thesis using assms(2) by simp
next
  case (ticked surface)
  then show ?thesis using assms(2)
    by (cases "status s") (simp_all add: tickBody_def Let_def split: if_splits)
qed

lemma ticks_static_after:
  assumes "ticks cfgs p dts s = Some s'" and "status s' = Static"
  shows "status s = Static \<and> timeElapsed s' = timeElapsed s \<and> position s' = position s"
  using assms
proof (induction dts arbitrary: s)
  case Nil
  then show ?case by simp
next
  case (Cons dt dts)
  from Cons.prems(1) obtain s1 where s1: "advance cfgs p dt s = Some s1"
    and rest: "ticks cfgs p dts s1 = Some s'"
    by (auto split: option.splits)
  have later: "status s1 = Static \<and> timeElapsed s' = timeElapsed s1 \<and> position s' = position s1"
    by (rule Cons.IH [OF rest Cons.prems(2)])
  then have "status s = Static \<and> timeElapsed s1 = timeElapsed s \<and> position s1 = position s"
    using advance_static_after [OF s1] by simp
  with later show ?case by simp
qed

section \<open>Concrete runs\<close>

lemma find_coasting: "find (\<lambda>c. type c = id_state coastingState) SURFACES = Some floorSurface"
  by (simp add: coastingState_def SURFACES_def floorSurface_def)

lemma ticks_coasting:
  "ticks SURFACES timedParams [1 / 5, 1 / 5, 1 / 5] coastingState
   = Some (coastingState\<lparr>status := Finished, acceleration := 0, velocity := 0,
        position := 50 + 4114 / 50000, timeElapsed := 2 + 2 / 5, isFinished := True\<rparr>)"
  by (simp add: tick_defs input_defs)

lemma ticks_floor_breakaway:
  "ticks SURFACES INITIAL_PARAMS [2 / 25] (initialState INITIAL_PARAMS floorSurface)
   = Some ((initialState INITIAL_PARAMS floorSurface)
        \<lparr>status := Moving, frictionForce := 2943 / 1000\<rparr>)"
  by (simp add: tick_defs input_defs)

lemma advance_floor_arrival:
  "advance SURFACES INITIAL_PARAMS 10
     ((initialState INITIAL_PARAMS floorSurface)
        \<lparr>status := Moving, frictionForce := 2943 / 1000\<rparr>)
   = Some ((initialState INITIAL_PARAMS floorSurface)
        \<lparr>status := Finished, frictionForce := 2943 / 1000, acceleration := 147057 / 1000,
          velocity := 147057 / 100, position := 500, timeElapsed := 10, isFinished := True\<rparr>)"
  by (simp add: tick_defs input_defs)

lemma ticks_weak_timed:
  "ticks SURFACES weakTimedParams [2 / 25, 2 / 25, 2 / 25]
     (initialState weakTimedParams floorSurface)
   = Some ((initialState weakTimedParams floorSurface)\<lparr>frictionForce := 1\<rparr>)"
  by (simp add: weakTimedParams_def tick_defs input_defs)

lemma advance_weak_timed:
  "advance SURFACES weakTimedParams (2 / 25) (initialState weakTimedParams floorSurface)
   = Some ((initialState weakTimedParams floorSurface)\<lparr>frictionForce := 1\<rparr>)"
  by (simp add: weakTimedParams_def tick_defs input_defs)

lemma advance_coasting:
  "advance SURFACES timedParams (1 / 2) coastingState
   = Some (coastingState\<lparr>status := Finished, acceleration := 0, velocity := 0,
        timeElapsed := 5 / 2, isFinished := True\<rparr>)"
  by (simp add: tick_defs input_defs)




section \<open>Frames of a started run\<close>

lemma frameTimes_34:
  "frameTimes 34 =
    [16, 32, 48, 64, 80, 96, 112, 128, 144, 160, 176, 192, 208, 224, 240, 256, 272, 288,
     304, 320, 336, 352, 368, 384, 400, 416, 432, 448, 464, 480, 496, 512, 528, 544]"
  by (simp add: frameTimes_def upt_rec)

lemma startedApp_eq:
  "startedApp =
    \<lparr>params = INITIAL_PARAMS, surfaceConfigs = SURFACES,
     states = map (initialState INITIAL_PARAMS) SURFACES,
     isRunning = True, isFinished_app = False, lastTime = 0,
     scheduled = Some \<lparr>params_c = INITIAL_PARAMS, surfaceConfigs_c = SURFACES,
                       isRunning_c = False\<rparr>\<rparr>"
  by (simp add: startedApp_def mountedApp_def handleStart_def startLoop_def
      resetSimulation_def currentLoop_def)

lemma frames_startedApp:
  "\<exists>app'. frames (frameTimes 34) startedApp = Some app'
      \<and> map status (states app') = [Finished, Finished, Finished]
      \<and> \<not> isFinished_app app' \<and> isRunning app'"
  by (simp add: frameTimes_34 startedApp_eq frame_def loop_def SPEED_MULTIPLIER_def
      tick_defs input_defs)

text \<open>
  The callback that \<open>handleStart\<close> schedules holds \<open>isRunning = false\<close>, and a callback
  that holds \<open>isRunning = false\<close> never takes the stop branch: whatever the bodies do, the
  flag \<open>isFinished\<close> of the component stays as it is and the same callback is scheduled
  again.
\<close>

lemma handleStart_closure:
  assumes "\<not> isRunning app"
  shows "\<exists>c. scheduled (handleStart now app) = Some c \<and> \<not> isRunning_c c
           \<and> \<not> isFinished_app (handleStart now app)"
  using assms
  by (simp add: handleStart_def startLoop_def resetSimulation_def currentLoop_def)

lemma loop_stale_closure:
  assumes "\<not> isRunning_c c" and "loop c time app = Some app'"
  shows "isFinished_app app' = isFinished_app app \<and> scheduled app' = Some c"
  using assms by (auto simp: loop_def Let_def split: option.splits)

lemma frames_stale_closure:
  assumes "\<not> isRunning_c c" and "scheduled app = Some c" and "frames ts app = Some app'"
  shows "isFinished_app app' = isFinished_app app"
  using assms(2,3)
proof (induction ts arbitrary: app)
  case Nil
  then show ?case by simp
next
  case (Cons time ts)
  from Cons.prems obtain app1 where l: "loop c time app = Some app1"
    and rest: "frames ts app1 = Some app'"
    by (auto simp: frame_def split: option.splits)
  have s1: "isFinished_app app1 = isFinished_app app \<and> scheduled app1 = Some c"
    by (rule loop_stale_closure [OF assms(1) l])
  then have "isFinished_app app' = isFinished_app app1"
    using Cons.IH [OF _ rest] by simp
  with s1 show ?case by simp
qed

lemma started_run_never_reported_finished:
  assumes "\<not> isRunning app" and "frames ts (handleStart now app) = Some app'"
  shows "\<not> isFinished_app app'"
proof -
  obtain c where c: "scheduled (handleStart now app) = Some c" "\<not> isRunning_c c"
    and f: "\<not> isFinished_app (handleStart now app)"
    using handleStart_closure [OF assms(1), of now] by blast
  show ?thesis using frames_stale_closure [OF c(2) c(1) assms(2)] f by simp
qed

section \<open>Rounding to two decimals\<close>

lemma round_half_up_close:
  fixes y :: real
  shows "\<bar>of_int \<lfloor>y + 1 / 2\<rfloor> - y\<bar> \<le> 1 / 2"
  by linarith

lemma hundredth_close:
  fixes r y :: real
  assumes "\<bar>r - y * 100\<bar> \<le> 1 / 2"
  shows "\<bar>r / 100 - y\<bar> \<le> 1 / 200"
proof -
  have "r / 100 - y = (r - y * 100) / 100" by simp
  then have "\<bar>r / 100 - y\<bar> = \<bar>r - y * 100\<bar> / 100" by (simp only: abs_divide)
  with assms show ?thesis by simp
qed

lemma toFixed2_close: "\<bar>toFixed2 x - x\<bar> \<le> 1 / 200"
proof (cases "x < 0")
  case True
  have "\<bar>of_int \<lfloor>(- x) * 100 + 1 / 2\<rfloor> / 100 - (- x)\<bar> \<le> (1 / 200 :: real)"
    by (rule hundredth_close) (rule round_half_up_close)
  moreover have "toFixed2 x - x = - (of_int \<lfloor>(- x) * 100 + 1 / 2\<rfloor> / 100 - (- x))"
    using True by (simp add: toFixed2_def)
  ultimately show ?thesis by (simp only: abs_minus)
next
  case False
  have "\<bar>of_int \<lfloor>x * 100 + 1 / 2\<rfloor> / 100 - x\<bar> \<le> (1 / 200 :: real)"
    by (rule hundredth_close) (rule round_half_up_close)
  then show ?thesis using False by (simp add: toFixed2_def)
qed

lemma toFixed2_hundredths: "\<exists>n::int. toFixed2 x = of_int n / 100"
proof (cases "x < 0")
  case True
  then have "toFixed2 x = of_int (- \<lfloor>(- x) * 100 + 1 / 2\<rfloor>) / 100"
    by (simp add: toFixed2_def)
  then show ?thesis by blast
next
  case False
  then have "toFixed2 x = of_int \<lfloor>x * 100 + 1 / 2\<rfloor> / 100"
    by (simp add: toFixed2_def)
  then show ?thesis by blast
qed

section \<open>The breakaway test\<close>

text \<open>
  C5. A Stationary body that is ticked becomes Moving if and only if the effective applied
  force is strictly greater than \<open>\<mu>s \<times> mass \<times> g\<close>; a force exactly equal to that limit
  leaves it Stationary.
\<close>

theorem breakaway_iff_strictly_above_static_limit:
  assumes "status s = Static" and "\<not> isFinished s"
    and "find (\<lambda>c. type c = id_state s) cfgs = Some surface"
  shows "\<exists>s'. advance cfgs p dt s = Some s'
           \<and> (status s' = Moving
                \<longleftrightarrow> pushForce p s > staticFrictionCoeff surface * (mass p * GRAVITY))
           \<and> (status s' = Moving \<or> status s' = Static)
           \<and> (pushForce p s = staticFrictionCoeff surface * (mass p * GRAVITY)
                \<longrightarrow> status s' = Static)"
  using assms
  by (simp add: advance_def tickBody_def Let_def maxStaticFriction_def normalForce_def)

theorem breakaway_iff_strictly_above_static_limit_witness:
  "status (initialState INITIAL_PARAMS floorSurface) = Static
   \<and> \<not> isFinished (initialState INITIAL_PARAMS floorSurface)
   \<and> find (\<lambda>c. type c = id_state (initialState INITIAL_PARAMS floorSurface)) SURFACES
       = Some floorSurface
   \<and> (\<exists>s'. advance SURFACES INITIAL_PARAMS (2 / 25) (initialState INITIAL_PARAMS floorSurface)
              = Some s'
         \<and> status s' = Moving)"
proof -
  let ?s = "initialState INITIAL_PARAMS floorSurface"
  have h1: "status ?s = Static" and h2: "\<not> isFinished ?s"
    by (simp_all add: initialState_def)
  have h3: "find (\<lambda>c. type c = id_state ?s) SURFACES = Some floorSurface"
    by (simp add: initialState_def floorSurface_def SURFACES_def)
  have push: "pushForce INITIAL_PARAMS ?s
      > staticFrictionCoeff floorSurface * (mass INITIAL_PARAMS * GRAVITY)"
    by (simp add: tick_defs input_defs)
  from breakaway_iff_strictly_above_static_limit [OF h1 h2 h3, of INITIAL_PARAMS "2 / 25"] push
  have "\<exists>s'. advance SURFACES INITIAL_PARAMS (2 / 25) ?s = Some s' \<and> status s' = Moving"
    by blast
  with h1 h2 h3 show ?thesis by blast
qed

section \<open>When the run is reported finished\<close>

text \<open>
  C1. The run is to be reported finished exactly when every body is Arrived. After
  mounting, a click on Start and 34 frames 16 ms apart under the initial parameters, all
  three bodies are Arrived, and the component still has \<open>isFinished = false\<close> and
  \<open>isRunning = true\<close>: the stop branch of \<open>loop\<close> tests the \<open>isRunning\<close> of the render
  in which Start was clicked, which is false.
\<close>

theorem all_bodies_arrived_and_run_not_finished:
  "map_option (map status \<circ> states) (frames (frameTimes 34) startedApp)
     = Some [Finished, Finished, Finished]
   \<and> map_option isFinished_app (frames (frameTimes 34) startedApp) = Some False
   \<and> map_option isRunning (frames (frameTimes 34) startedApp) = Some True"
  using frames_startedApp by auto

section \<open>The halting tick\<close>

text \<open>
  A body coasting at 1 m/s after its timed push has ended is halted by a tick of 0.5 s:
  the updated velocity is negative and the push is 0. The tick ends with status Finished
  and the elapsed time has gone from 2 s to 2.5 s, so the elapsed time does advance on the
  halting tick (C2 as stated fails here).
\<close>

theorem halting_tick_advances_elapsed_time:
  "status coastingState = Moving
   \<and> velocity coastingState
        + (pushForce timedParams coastingState - kineticFriction timedParams floorSurface)
            / mass timedParams * (1 / 2) \<le> 0
   \<and> pushForce timedParams coastingState \<le> kineticFriction timedParams floorSurface
   \<and> map_option status (advance SURFACES timedParams (1 / 2) coastingState) = Some Finished
   \<and> timeElapsed coastingState = 2
   \<and> map_option timeElapsed (advance SURFACES timedParams (1 / 2) coastingState) = Some (5 / 2)"
  by (simp add: tick_defs input_defs)

text \<open>
  C2, amended. On a tick where a Moving body's updated velocity is \<open>\<le> 0\<close> and the effective
  applied force is \<open>\<le>\<close> the kinetic friction, velocity and acceleration are set to 0 and
  the status becomes Arrived; the position keeps its value (it is at most the target), and
  the elapsed time advances by the step of this tick, as on every Moving tick.
\<close>

theorem halting_tick_keeps_position_and_adds_step:
  assumes "status s = Moving" and "\<not> isFinished s"
    and "find (\<lambda>c. type c = id_state s) cfgs = Some surface"
    and "0 < mass p"
    and "velocity s
          + (pushForce p s - kineticFrictionCoeff surface * (mass p * GRAVITY)) / mass p * dt
          \<le> 0"
    and "pushForce p s \<le> kineticFrictionCoeff surface * (mass p * GRAVITY)"
    and "position s \<le> distance p"
  shows "\<exists>s'. advance cfgs p dt s = Some s'
           \<and> velocity s' = 0 \<and> acceleration s' = 0 \<and> status s' = Finished
           \<and> position s' = position s
           \<and> timeElapsed s' = timeElapsed s + dt"
  using assms
  by (simp add: advance_def tickBody_def Let_def kineticFriction_def normalForce_def)

theorem halting_tick_keeps_position_and_adds_step_witness:
  "status coastingState = Moving \<and> \<not> isFinished coastingState
   \<and> find (\<lambda>c. type c = id_state coastingState) SURFACES = Some floorSurface
   \<and> 0 < mass timedParams
   \<and> velocity coastingState
        + (pushForce timedParams coastingState
             - kineticFrictionCoeff floorSurface * (mass timedParams * GRAVITY))
            / mass timedParams * (1 / 2) \<le> 0
   \<and> pushForce timedParams coastingState
        \<le> kineticFrictionCoeff floorSurface * (mass timedParams * GRAVITY)
   \<and> position coastingState \<le> distance timedParams
   \<and> (\<exists>s'. advance SURFACES timedParams (1 / 2) coastingState = Some s'
           \<and> velocity s' = 0 \<and> acceleration s' = 0 \<and> status s' = Finished
           \<and> position s' = position coastingState
           \<and> timeElapsed s' = timeElapsed coastingState + 1 / 2)"
proof -
  have h1: "status coastingState = Moving" and h2: "\<not> isFinished coastingState"
    by (simp_all add: coastingState_def)
  have h3: "0 < mass timedParams" by (simp add: input_defs)
  have h4: "velocity coastingState
        + (pushForce timedParams coastingState
             - kineticFrictionCoeff floorSurface * (mass timedParams * GRAVITY))
            / mass timedParams * (1 / 2) \<le> 0"
    by (simp add: tick_defs input_defs)
  have h5: "pushForce timedParams coastingState
        \<le> kineticFrictionCoeff floorSurface * (mass timedParams * GRAVITY)"
    by (simp add: tick_defs input_defs)
  have h6: "position coastingState \<le> distance timedParams"
    by (simp add: input_defs)
  from halting_tick_keeps_position_and_adds_step [OF h1 h2 find_coasting h3 h4 h5 h6]
  show ?thesis using h1 h2 find_coasting h3 h4 h5 h6 by blast
qed

section \<open>Ticks after arrival\<close>

text \<open>
  What holds of an Arrived body: a state that a tick has returned with status Finished has
  its flag \<open>isFinished\<close> set, and every later tick returns it as it is.
\<close>

lemma arrived_body_is_frozen:
  assumes "advance cfgs p dt s = Some s1" and "status s1 = Finished"
  shows "isFinished s1 \<and> advance cfgs p dt2 s1 = Some s1 \<and> ticks cfgs p dts s1 = Some s1"
proof -
  from assms(1) have fin: "isFinished s1"
  proof (cases rule: advance_cases)
    case frozen
    then show ?thesis by simp
  next
    case (ticked surface)
    then show ?thesis using assms(2) tickBody_isFinished [of p dt surface s] by simp
  qed
  have "ticks cfgs p dts s1 = Some s1"
    by (induction dts) (simp_all add: advance_finished_noop [OF fin])
  with fin show ?thesis by (simp add: advance_finished_noop)
qed

text \<open>
  C3. Once a body is Arrived a tick returns its state as it is, so the friction force it
  reports is the one stored on the arrival tick. The Floor body under the initial
  parameters, ticked from the reset state with the step 0.08 s of a 16 ms frame, is Arrived
  after 34 ticks. After the 35th tick, a tick of an Arrived body, its friction force is
  still the kinetic friction, 2.943 N, not 0: the branch of the tick that reports 0 for a
  finished body is never reached.
\<close>

theorem arrived_body_keeps_kinetic_friction:
  "map_option status
     (ticks SURFACES INITIAL_PARAMS (replicate 34 (2 / 25))
        (initialState INITIAL_PARAMS floorSurface))
     = Some Finished
   \<and> map_option frictionForce
     (ticks SURFACES INITIAL_PARAMS (replicate 35 (2 / 25))
        (initialState INITIAL_PARAMS floorSurface))
     = Some (2943 / 1000)"
  by (simp add: tick_defs input_defs numeral_eq_Suc)

section \<open>Adjusting the kinetic coefficient\<close>

text \<open>
  The range of Ice is \<open>[0.1, 0.3]\<close>. \<open>handleFrictionChange\<close> with the value 5 does not fail:
  it stores 5 as the kinetic and 5.1 as the static coefficient (C4 as stated fails here).
\<close>

theorem adjust_out_of_range_is_stored:
  "type (SURFACES ! 0) = ICE
   \<and> snd (frictionRange (SURFACES ! 0)) < 5
   \<and> kineticFrictionCoeff (SURFACES ! 0) = 1 / 10
   \<and> kineticFrictionCoeff (handleFrictionChange ICE 5 SURFACES ! 0) = 5
   \<and> staticFrictionCoeff (handleFrictionChange ICE 5 SURFACES ! 0) = 51 / 10"
  by (simp add: handleFrictionChange_def SURFACES_def toFixed2_def)

text \<open>
  C4, amended. For every surface and every new value, whether or not the value lies in the
  surface's range, the adjustment returns a registry of the same length in which the
  surface with the given identity has \<open>\<mu>k\<close> equal to the new value and \<open>\<mu>s\<close> equal to
  \<open>\<mu>k + 0.1\<close> rounded to two decimals (a multiple of 0.01 at most 0.005 away), with its
  identity and range kept, and every other surface is unchanged. There is no range check
  and no failure.
\<close>

theorem handleFrictionChange_sets_both_coefficients:
  assumes "i < length cfgs"
  shows "length (handleFrictionChange ty v cfgs) = length cfgs
       \<and> (type (cfgs ! i) = ty \<longrightarrow>
            kineticFrictionCoeff (handleFrictionChange ty v cfgs ! i) = v
          \<and> staticFrictionCoeff (handleFrictionChange ty v cfgs ! i) = toFixed2 (v + 1 / 10)
          \<and> type (handleFrictionChange ty v cfgs ! i) = ty
          \<and> frictionRange (handleFrictionChange ty v cfgs ! i) = frictionRange (cfgs ! i))
       \<and> (type (cfgs ! i) \<noteq> ty \<longrightarrow> handleFrictionChange ty v cfgs ! i = cfgs ! i)
       \<and> (\<exists>n::int. toFixed2 (v + 1 / 10) = of_int n / 100)
       \<and> \<bar>toFixed2 (v + 1 / 10) - (v + 1 / 10)\<bar> \<le> 1 / 200"
  using assms toFixed2_close [of "v + 1 / 10"] toFixed2_hundredths [of "v + 1 / 10"]
  by (simp add: handleFrictionChange_def)

theorem handleFrictionChange_sets_both_coefficients_witness:
  "(0::nat) < length SURFACES
   \<and> type (SURFACES ! 0) = ICE
   \<and> kineticFrictionCoeff (handleFrictionChange ICE (1 / 5) SURFACES ! 0) = 1 / 5
   \<and> staticFrictionCoeff (handleFrictionChange ICE (1 / 5) SURFACES ! 0) = 3 / 10
   \<and> handleFrictionChange ICE (1 / 5) SURFACES ! 1 = SURFACES ! 1"
proof -
  have h: "(0::nat) < length SURFACES" and h1: "(1::nat) < length SURFACES"
    by (simp_all add: SURFACES_def)
  have t0: "type (SURFACES ! 0) = ICE" and t1: "type (SURFACES ! 1) \<noteq> ICE"
    by (simp_all add: SURFACES_def)
  have r: "toFixed2 (1 / 5 + 1 / 10) = 3 / 10"
    by (simp add: toFixed2_def)
  from handleFrictionChange_sets_both_coefficients [OF h, of ICE "1 / 5"]
    handleFrictionChange_sets_both_coefficients [OF h1, of ICE "1 / 5"]
  show ?thesis using h t0 t1 r by simp
qed

section \<open>Velocity and position over a run\<close>

text \<open>
  C6. With a positive mass and steps that are not negative, the velocity of a body is
  \<open>\<ge> 0\<close> after every sequence of ticks that starts from a state whose velocity is
  \<open>\<ge> 0\<close> (the reset state has velocity 0), for every force mode, surface registry and
  other parameter.
\<close>

theorem velocity_never_negative:
  assumes "0 < mass p" and "\<forall>dt\<in>set dts. 0 \<le> dt" and "0 \<le> velocity s"
    and "ticks cfgs p dts s = Some s'"
  shows "0 \<le> velocity s'"
  using assms(2-)
proof (induction dts arbitrary: s)
  case Nil
  then show ?case by simp
next
  case (Cons dt dts)
  from Cons.prems(3) obtain s1 where s1: "advance cfgs p dt s = Some s1"
    and rest: "ticks cfgs p dts s1 = Some s'"
    by (auto split: option.splits)
  have dt: "0 \<le> dt" and dts: "\<forall>d\<in>set dts. 0 \<le> d" using Cons.prems(1) by simp_all
  from s1 have "0 \<le> velocity s1"
  proof (cases rule: advance_cases)
    case frozen
    then show ?thesis using Cons.prems(2) by simp
  next
    case (ticked surface)
    then show ?thesis
      using tickBody_velocity_nonneg [OF assms(1) dt Cons.prems(2), of surface] by simp
  qed
  then show ?case by (rule Cons.IH [OF dts _ rest])
qed

theorem velocity_never_negative_witness:
  "0 < mass timedParams \<and> (0::real) \<le> 1 / 5
   \<and> 0 \<le> velocity coastingState
   \<and> (\<exists>s'. ticks SURFACES timedParams [1 / 5, 1 / 5, 1 / 5] coastingState = Some s'
          \<and> 0 \<le> velocity s')"
proof -
  have h1: "0 < mass timedParams" by (simp add: input_defs)
  have h2: "\<forall>dt\<in>set [1 / 5, 1 / 5, 1 / 5 :: real]. 0 \<le> dt" by simp
  have h3: "0 \<le> velocity coastingState" by (simp add: input_defs)
  from velocity_never_negative [OF h1 h2 h3 ticks_coasting] ticks_coasting h1 h3
  show ?thesis by simp
qed

text \<open>
  C7. With a positive mass, a target that is not negative and steps that are not negative,
  for every state reached by ticks from the reset state and every further tick: the
  position does not decrease, it does not exceed the target distance, and for a Moving body
  it is the smaller of the target distance and the integrated position, so an update that
  would overshoot ends exactly at the target.
\<close>

theorem position_monotone_and_bounded:
  assumes "0 < mass p" and "0 \<le> distance p" and "\<forall>d\<in>set dts. 0 \<le> d"
    and "ticks cfgs p dts (initialState p c) = Some s"
    and "0 \<le> dt" and "advance cfgs p dt s = Some s'"
  shows "position s \<le> position s' \<and> position s' \<le> distance p
       \<and> (status s = Moving \<longrightarrow>
            position s' = min (distance p) (position s + velocity s' * dt))"
proof -
  have inv: "0 \<le> velocity s \<and> position s \<le> distance p
       \<and> isFinished s = (status s = Finished) \<and> position (initialState p c) \<le> position s"
    using ticks_invariant [OF assms(1,3,4)] initialState_invariant [of p c] assms(2)
    by simp
  then have step: "0 \<le> velocity s' \<and> position s' \<le> distance p
       \<and> isFinished s' = (status s' = Finished) \<and> position s \<le> position s'"
    using advance_invariant [OF assms(1,5,6)] by simp
  have "position s' = min (distance p) (position s + velocity s' * dt)"
    if moving: "status s = Moving"
    using assms(6)
  proof (cases rule: advance_cases)
    case frozen
    then show ?thesis using inv moving by simp
  next
    case (ticked surface)
    then show ?thesis using tickBody_moving_position [OF moving, of p dt surface] by simp
  qed
  with step show ?thesis by simp
qed

theorem position_monotone_and_bounded_witness:
  "0 < mass INITIAL_PARAMS \<and> 0 \<le> distance INITIAL_PARAMS
   \<and> (0::real) \<le> 2 / 25 \<and> (0::real) \<le> 10
   \<and> (\<exists>s s'. ticks SURFACES INITIAL_PARAMS [2 / 25] (initialState INITIAL_PARAMS floorSurface)
                 = Some s
          \<and> advance SURFACES INITIAL_PARAMS 10 s = Some s'
          \<and> status s = Moving \<and> position s = 0
          \<and> position s \<le> position s' \<and> position s' \<le> distance INITIAL_PARAMS
          \<and> position s' = min (distance INITIAL_PARAMS) (position s + velocity s' * 10)
          \<and> position s' = 500)"
proof -
  let ?s = "(initialState INITIAL_PARAMS floorSurface)
        \<lparr>status := Moving, frictionForce := 2943 / 1000\<rparr>"
  have h1: "0 < mass INITIAL_PARAMS" and h2: "0 \<le> distance INITIAL_PARAMS"
    by (simp_all add: input_defs)
  have h3: "\<forall>d\<in>set [2 / 25 :: real]. 0 \<le> d" and h5: "(0::real) \<le> 10" by simp_all
  have m: "status ?s = Moving" and z: "position ?s = 0" by (simp_all add: initialState_def)
  from position_monotone_and_bounded
    [OF h1 h2 h3 ticks_floor_breakaway h5 advance_floor_arrival] m z
    ticks_floor_breakaway advance_floor_arrival h1 h2 h3 h5
  show ?thesis by (simp add: input_defs)
qed

section \<open>Time while Stationary\<close>

text \<open>
  C8. A tick of a Stationary body leaves its elapsed time (and its position) unchanged.
  Hence a body that is still Stationary after any sequence of ticks from the reset state
  has elapsed time 0 and position 0, and its push is not exhausted: in timed mode the
  effective force is the applied force whenever the configured duration is positive, in
  distance-limited mode whenever the configured distance limit is positive.
\<close>

theorem stationary_body_keeps_its_clock:
  "(status s = Static \<and> advance cfgs p dt s = Some s' \<longrightarrow>
      timeElapsed s' = timeElapsed s \<and> position s' = position s)
   \<and> (ticks cfgs p dts (initialState p c) = Some s'' \<and> status s'' = Static \<longrightarrow>
        timeElapsed s'' = 0 \<and> position s'' = 0
      \<and> (forceMode p = Timed \<longrightarrow>
            pushForce p s'' = (if 0 < forceDuration p then appliedForce p else 0))
      \<and> (forceMode p = Distance \<longrightarrow>
            pushForce p s'' = (if 0 < forceDistanceLimit p then appliedForce p else 0)))"
proof -
  have one: "timeElapsed s' = timeElapsed s \<and> position s' = position s"
    if "status s = Static" and adv: "advance cfgs p dt s = Some s'"
    using adv
  proof (cases rule: advance_cases)
    case frozen
    then show ?thesis by simp
  next
    case (ticked surface)
    then show ?thesis using that(1) by (simp add: tickBody_def Let_def)
  qed
  have many: "timeElapsed s'' = 0 \<and> position s'' = 0
      \<and> (forceMode p = Timed \<longrightarrow>
            pushForce p s'' = (if 0 < forceDuration p then appliedForce p else 0))
      \<and> (forceMode p = Distance \<longrightarrow>
            pushForce p s'' = (if 0 < forceDistanceLimit p then appliedForce p else 0))"
    if run: "ticks cfgs p dts (initialState p c) = Some s''" and st: "status s'' = Static"
  proof -
    have "timeElapsed s'' = timeElapsed (initialState p c)
        \<and> position s'' = position (initialState p c)"
      using ticks_static_after [OF run st] by simp
    then have z: "timeElapsed s'' = 0 \<and> position s'' = 0"
      by (simp add: initialState_def)
    then show ?thesis by (simp add: pushForce_def isForceActive_def)
  qed
  from one many show ?thesis by blast
qed

theorem stationary_body_keeps_its_clock_witness:
  "status (initialState weakTimedParams floorSurface) = Static
   \<and> forceMode weakTimedParams = Timed
   \<and> (\<exists>s' s''. advance SURFACES weakTimedParams (2 / 25)
                  (initialState weakTimedParams floorSurface) = Some s'
          \<and> timeElapsed s' = 0
          \<and> ticks SURFACES weakTimedParams [2 / 25, 2 / 25, 2 / 25]
                  (initialState weakTimedParams floorSurface) = Some s''
          \<and> status s'' = Static \<and> timeElapsed s'' = 0 \<and> position s'' = 0
          \<and> pushForce weakTimedParams s'' = 1)"
proof -
  let ?s0 = "initialState weakTimedParams floorSurface"
  let ?s1 = "?s0\<lparr>frictionForce := 1\<rparr>"
  have h1: "status ?s0 = Static" and h2: "status ?s1 = Static"
    and z: "timeElapsed ?s0 = 0"
    by (simp_all add: initialState_def)
  have m: "forceMode weakTimedParams = Timed" and d: "0 < forceDuration weakTimedParams"
    and a: "appliedForce weakTimedParams = 1"
    by (simp_all add: weakTimedParams_def INITIAL_PARAMS_def)
  from stationary_body_keeps_its_clock
    [of ?s0 SURFACES weakTimedParams "2 / 25" ?s1 "[2 / 25, 2 / 25, 2 / 25]" floorSurface ?s1]
    h1 h2 z m d a ticks_weak_timed advance_weak_timed
  show ?thesis by simp
qed

section \<open>The force-mode policy\<close>

text \<open>
  For a body that is ticked (its flag \<open>isFinished\<close> is unset and its surface is in the
  registry) the tick returns a state, and the force it stores as \<open>currentAppliedForce\<close>
  is the configured applied force when the mode's condition holds on the state before the
  tick, and 0 otherwise.
\<close>

lemma ticked_body_force_follows_mode:
  assumes "\<not> isFinished s" and "find (\<lambda>c. type c = id_state s) cfgs = Some surface"
  shows "\<exists>s'. advance cfgs p dt s = Some s'
       \<and> currentAppliedForce s' = pushForce p s
       \<and> (forceMode p = Continuous \<longrightarrow> pushForce p s = appliedForce p)
       \<and> (forceMode p = Impulse \<longrightarrow>
            pushForce p s = (if timeElapsed s < 1 / 2 then appliedForce p else 0))
       \<and> (forceMode p = Timed \<longrightarrow>
            pushForce p s = (if timeElapsed s < forceDuration p then appliedForce p else 0))
       \<and> (forceMode p = Distance \<longrightarrow>
            pushForce p s = (if position s < forceDistanceLimit p then appliedForce p else 0))"
proof -
  have a: "advance cfgs p dt s = Some (tickBody p dt surface s)"
    using assms by (simp add: advance_def)
  have "currentAppliedForce (tickBody p dt surface s) = pushForce p s"
    by (cases "status s") (simp_all add: tickBody_def Let_def)
  with a show ?thesis
    by (simp add: pushForce_def isForceActive_def IMPULSE_DURATION_def)
qed


section \<open>The breakaway tick\<close>

text \<open>
  C10. On the tick on which a Stationary body breaks away, the status becomes Moving while
  position, velocity and elapsed time are returned unchanged, the acceleration is 0 and the
  friction force is the kinetic friction. The integration starts on the following tick:
  there the elapsed time grows by the step, the velocity is updated by the acceleration
  (or set to 0 by the stopping rule) and the position by the new velocity, up to the target.
\<close>

theorem breakaway_tick_does_not_integrate:
  assumes "status s = Static" and "\<not> isFinished s"
    and "find (\<lambda>c. type c = id_state s) cfgs = Some surface"
    and "pushForce p s > staticFrictionCoeff surface * (mass p * GRAVITY)"
    and "0 < mass p"
  shows "\<exists>s1 s2. advance cfgs p dt s = Some s1
           \<and> status s1 = Moving
           \<and> position s1 = position s \<and> velocity s1 = velocity s
           \<and> timeElapsed s1 = timeElapsed s
           \<and> acceleration s1 = 0
           \<and> frictionForce s1 = kineticFrictionCoeff surface * (mass p * GRAVITY)
           \<and> advance cfgs p dt2 s1 = Some s2
           \<and> timeElapsed s2 = timeElapsed s + dt2
           \<and> velocity s2 =
               (let v = velocity s
                      + (pushForce p s - kineticFrictionCoeff surface * (mass p * GRAVITY))
                          / mass p * dt2
                in if v \<le> 0
                      \<and> pushForce p s \<le> kineticFrictionCoeff surface * (mass p * GRAVITY)
                   then 0 else v)
           \<and> position s2 = min (distance p) (position s + velocity s2 * dt2)"
proof -
  let ?s1 = "tickBody p dt surface s"
  have a1: "advance cfgs p dt s = Some ?s1"
    using assms(2,3) by (simp add: advance_def)
  have f1: "status ?s1 = Moving \<and> position ?s1 = position s \<and> velocity ?s1 = velocity s
      \<and> timeElapsed ?s1 = timeElapsed s \<and> acceleration ?s1 = 0
      \<and> frictionForce ?s1 = kineticFrictionCoeff surface * (mass p * GRAVITY)
      \<and> \<not> isFinished ?s1 \<and> id_state ?s1 = id_state s"
    using assms(1,4)
    by (simp add: tickBody_def Let_def maxStaticFriction_def kineticFriction_def
        normalForce_def)
  then have push: "pushForce p ?s1 = pushForce p s"
    by (cases "forceMode p") (simp_all add: pushForce_def isForceActive_def)
  let ?s2 = "tickBody p dt2 surface ?s1"
  have a2: "advance cfgs p dt2 ?s1 = Some ?s2"
    using f1 assms(3) by (simp add: advance_def)
  have m1: "status ?s1 = Moving" using f1 by simp
  have f2: "timeElapsed ?s2 = timeElapsed s + dt2
      \<and> velocity ?s2 =
               (let v = velocity s
                      + (pushForce p s - kineticFrictionCoeff surface * (mass p * GRAVITY))
                          / mass p * dt2
                in if v \<le> 0
                      \<and> pushForce p s \<le> kineticFrictionCoeff surface * (mass p * GRAVITY)
                   then 0 else v)"
    unfolding tickBody_def [of p dt2 surface ?s1]
    using f1 push by (simp add: Let_def kineticFriction_def normalForce_def)
  have p2: "position ?s2 = min (distance p) (position s + velocity ?s2 * dt2)"
    using tickBody_moving_position [OF m1, of p dt2 surface] f1 by simp
  from a1 f1 a2 f2 p2 show ?thesis by blast
qed


theorem breakaway_tick_does_not_integrate_witness:
  "status (initialState INITIAL_PARAMS floorSurface) = Static
   \<and> \<not> isFinished (initialState INITIAL_PARAMS floorSurface)
   \<and> find (\<lambda>c. type c = id_state (initialState INITIAL_PARAMS floorSurface)) SURFACES
       = Some floorSurface
   \<and> pushForce INITIAL_PARAMS (initialState INITIAL_PARAMS floorSurface)
       > staticFrictionCoeff floorSurface * (mass INITIAL_PARAMS * GRAVITY)
   \<and> 0 < mass INITIAL_PARAMS
   \<and> (\<exists>s1 s2. advance SURFACES INITIAL_PARAMS (2 / 25)
                   (initialState INITIAL_PARAMS floorSurface) = Some s1
          \<and> status s1 = Moving \<and> position s1 = 0 \<and> velocity s1 = 0 \<and> timeElapsed s1 = 0
          \<and> acceleration s1 = 0 \<and> frictionForce s1 = 2943 / 1000
          \<and> advance SURFACES INITIAL_PARAMS (2 / 25) s1 = Some s2
          \<and> timeElapsed s2 = 2 / 25
          \<and> velocity s2 = 1176456 / 100000
          \<and> position s2 = 9411648 / 10000000)"
proof -
  let ?s = "initialState INITIAL_PARAMS floorSurface"
  have h1: "status ?s = Static" and h2: "\<not> isFinished ?s"
    by (simp_all add: initialState_def)
  have h3: "find (\<lambda>c. type c = id_state ?s) SURFACES = Some floorSurface"
    by (simp add: initialState_def floorSurface_def SURFACES_def)
  have h4: "pushForce INITIAL_PARAMS ?s
      > staticFrictionCoeff floorSurface * (mass INITIAL_PARAMS * GRAVITY)"
    by (simp add: tick_defs input_defs)
  have h5: "0 < mass INITIAL_PARAMS" by (simp add: input_defs)
  have v: "pushForce INITIAL_PARAMS ?s = 150" "velocity ?s = 0" "position ?s = 0"
    "timeElapsed ?s = 0" "kineticFrictionCoeff floorSurface = 3 / 10"
    "mass INITIAL_PARAMS = 1" "distance INITIAL_PARAMS = 500"
    by (simp_all add: tick_defs input_defs)
  from breakaway_tick_does_not_integrate [OF h1 h2 h3 h4 h5, of "2 / 25" "2 / 25"]
  obtain s1 s2 where r:
    "advance SURFACES INITIAL_PARAMS (2 / 25) ?s = Some s1"
    "status s1 = Moving" "position s1 = 0" "velocity s1 = 0" "timeElapsed s1 = 0"
    "acceleration s1 = 0" "frictionForce s1 = 2943 / 1000"
    "advance SURFACES INITIAL_PARAMS (2 / 25) s1 = Some s2"
    "timeElapsed s2 = 2 / 25"
    "velocity s2 = 1176456 / 100000"
    "position s2 = min 500 (velocity s2 * (2 / 25))"
    by (auto simp: v GRAVITY_def Let_def)
  from r(10,11) have "position s2 = 9411648 / 10000000" by simp
  with r h1 h2 h3 h4 h5 show ?thesis by blast
qed

end
